theory Spec2Isabelle
  imports Complex_Main
begin

section \<open>Python objects seen by cleye\<close>

text \<open>
  cleye reads the annotations and defaults of a function signature and turns them into
  calls of the click framework. The objects it inspects are modelled by two datatypes.
  Where versions of Python differ the model follows Python 3.11 and later.

  \<open>pyclass\<close> holds the classes the code tests against (\<open>datetime.datetime\<close>,
  \<open>tuple\<close>, \<open>uuid.UUID\<close>, \<open>list\<close>, \<open>set\<close>, \<open>pathlib.Path\<close>, \<open>object\<close>,
  \<open>typing.Any\<close>, \<open>bool\<close>), a few more builtins, \<open>inspect._empty\<close> (the class that
  marks a missing annotation or default), and user classes, each given by a name and
  its base class. Classes have one base: the builtin classes named above have
  incompatible instance layouts, so that no Python class derives from two of them, and
  a further base that derives from \<open>object\<close> alone changes none of the tests the code
  makes. Classes are taken not to define an attribute \<open>__args__\<close> and not to override
  the checks of instances and subclasses. \<open>typing.Any\<close> is a class from Python 3.11 on;
  before, it is no class and takes the last branch of \<open>click_type\<close>, with the same
  results.
\<close>

datatype pyclass =
    CObject
  | CAny
  | CBool
  | CInt
  | CFloat
  | CStr
  | CNoneType
  | CList
  | CSet
  | CTuple
  | CDatetime
  | CUUID
  | CPath
  | CEmpty
  | CUser string pyclass

text \<open>
  \<open>pyobj\<close> holds the values that appear as annotations, defaults and items:
  \<open>None\<close>, booleans, integers, floats (only their being floats is ever tested), strings,
  tuples, dictionaries with string keys, classes, and
  \<^item> \<open>GenericAlias n args\<close>, an instance of \<open>typing._GenericAlias\<close> such as
    \<open>typing.List[int]\<close>, given by the name of the typing construct and its \<open>__args__\<close>
    (empty for \<open>typing.Tuple[()]\<close>);
  \<^item> \<open>BuiltinAlias c args\<close>, an alias of PEP 585 such as \<open>list[str]\<close>, an instance of
    \<open>types.GenericAlias\<close>: it is neither an instance of \<open>typing._GenericAlias\<close> nor of
    \<open>type\<close>;
  \<^item> \<open>ClassProxy\<close>, an object that is no class while its \<open>__class__\<close> reports \<open>type\<close>,
    such as \<open>unittest.mock.Mock(spec=type)\<close>: \<open>isinstance(x, type)\<close> holds for it and
    \<open>issubclass(x, y)\<close> raises \<open>TypeError\<close>.
\<close>

datatype pyobj =
    PyNone
  | PyBool bool
  | PyInt int
  | PyFloat real
  | PyStr string
  | PyTuple "pyobj list"
  | PyDict "(string \<times> pyobj) list"
  | Cls pyclass
  | GenericAlias string "pyobj list"
  | BuiltinAlias pyclass "pyobj list"
  | ClassProxy

text \<open>
  The exceptions of Python and of click (\<open>BadParameter\<close>) that the code can raise.
  \<open>Unmodelled\<close> is no exception: it marks a call of a library whose outcome depends on
  the version of the library, or on a part of Python that is not modelled. A result
  \<open>Inl Unmodelled\<close> says nothing about the code.
\<close>

datatype error = TypeError | AttributeError | IndexError | ValueError | UnboundLocalError
  | BadParameter | Unmodelled

text \<open>The class and its ancestors, as \<open>__mro__\<close> lists them.\<close>

fun mro :: "pyclass \<Rightarrow> pyclass list" where
  "mro (CUser n b) = CUser n b # mro b"
| "mro CObject = [CObject]"
| "mro CBool = [CBool, CInt, CObject]"
| "mro c = [c, CObject]"

text \<open>\<open>issubclass(c, y)\<close> for two classes.\<close>

definition subclass_of :: "pyclass \<Rightarrow> pyclass \<Rightarrow> bool" where
  "subclass_of c y = (y \<in> set (mro c))"

text \<open>
  \<open>is_class x\<close>: the object \<open>x\<close> is a class. \<open>isinstance(x, type)\<close> holds for the classes
  and for the objects whose \<open>__class__\<close> reports \<open>type\<close>. Then
  \<open>isinstance(x, typing._GenericAlias)\<close>, \<open>isinstance(x, int)\<close> (a \<open>bool\<close> is an
  \<open>int\<close>) and \<open>isinstance(x, float)\<close>.
\<close>

fun is_class :: "pyobj \<Rightarrow> bool" where
  "is_class (Cls c) = True"
| "is_class x = False"

fun isinstance_type :: "pyobj \<Rightarrow> bool" where
  "isinstance_type (Cls c) = True"
| "isinstance_type ClassProxy = True"
| "isinstance_type x = False"

fun isinstance_GenericAlias :: "pyobj \<Rightarrow> bool" where
  "isinstance_GenericAlias (GenericAlias n args) = True"
| "isinstance_GenericAlias x = False"

fun isinstance_int :: "pyobj \<Rightarrow> bool" where
  "isinstance_int (PyInt i) = True"
| "isinstance_int (PyBool b) = True"
| "isinstance_int x = False"

fun isinstance_float :: "pyobj \<Rightarrow> bool" where
  "isinstance_float (PyFloat r) = True"
| "isinstance_float x = False"

text \<open>
  The builtin \<open>issubclass(x, y)\<close> for a class \<open>y\<close>. For a class \<open>x\<close> it is the subclass
  relation. An alias of PEP 585 hands the bases of its class over and is no class
  itself, so that \<open>issubclass(list[str], y)\<close> holds for the proper ancestors of \<open>list\<close>.
  For every other object it raises \<open>TypeError\<close>.
\<close>

fun issubclass :: "pyobj \<Rightarrow> pyclass \<Rightarrow> error + bool" where
  "issubclass (Cls c) y = Inr (subclass_of c y)"
| "issubclass (BuiltinAlias c args) y = Inr (y \<in> set (tl (mro c)))"
| "issubclass x y = Inl TypeError"

section \<open>istype\<close>

text \<open>
  \<^verbatim>\<open>
  def istype(x: typing.Any, y: type) -> bool:
      if isinstance(x, type):
          return issubclass(x, y)
      return False
  \<close>
\<close>

definition istype :: "pyobj \<Rightarrow> pyclass \<Rightarrow> error + bool" where
  "istype x y = (if isinstance_type x then issubclass x y else Inr False)"

section \<open>click\_type\<close>

text \<open>
  What \<open>click_type\<close> returns, when it is not \<open>None\<close>: the instances \<open>click.DateTime()\<close>
  and \<open>click.Path()\<close>, the instances \<open>click.IntRange(*xs)\<close> and
  \<open>click.FloatRange(*xs)\<close> recorded with their arguments, the class itself, or
  \<open>UUIDValue s\<close>, the instance of \<open>uuid.UUID\<close> that \<open>uuid.UUID(s)\<close> makes of the
  string \<open>s\<close>. \<open>click.Tuple(object.__args__)\<close> is never reached with an argument: a
  class has no \<open>__args__\<close>, so the attribute access raises first.
\<close>

datatype param_type =
    ClickDateTime
  | UUIDValue string
  | ClickPath
  | ClickIntRange "pyobj list"
  | ClickFloatRange "pyobj list"
  | PyType pyclass

text \<open>
  \<open>click.UUID\<close> is an instance of click's \<open>UUIDParameterType\<close>, not a class: the call
  \<open>click.UUID(value)\<close> is the conversion of \<open>value\<close>. It returns \<open>None\<close> for \<open>None\<close>.
  A string is given to \<open>uuid.UUID\<close>, which drops the hyphens and wants 32 hexadecimal
  digits: the call returns the \<open>uuid.UUID\<close> made of such a string, and raises click's
  \<open>BadParameter\<close> for a string of fewer than 32 characters. The other strings (with
  blanks, braces or a prefix, which versions of click and \<open>uuid.UUID\<close> treat
  differently) and the values that are no strings are left out of the model.
\<close>

definition hexdigit :: "char \<Rightarrow> bool" where
  "hexdigit c = (c \<in> set ''0123456789abcdefABCDEF'')"

definition uuid_text :: "string \<Rightarrow> bool" where
  "uuid_text s =
     (length (filter (\<lambda>c. c \<noteq> CHR ''-'') s) = 32 \<and>
      list_all hexdigit (filter (\<lambda>c. c \<noteq> CHR ''-'') s))"

fun click_UUID :: "pyobj \<Rightarrow> error + param_type option" where
  "click_UUID PyNone = Inr None"
| "click_UUID (PyStr s) =
     (if uuid_text s then Inr (Some (UUIDValue s))
      else if length s < 32 then Inl BadParameter
      else Inl Unmodelled)"
| "click_UUID x = Inl Unmodelled"

text \<open>
  \<open>click.IntRange(*xs)\<close> and \<open>click.FloatRange(*xs)\<close>. The constructor takes \<open>min\<close>,
  \<open>max\<close> and \<open>clamp\<close> in click 7, and \<open>min\<close>, \<open>max\<close>, \<open>min_open\<close>, \<open>max_open\<close> and
  \<open>clamp\<close> in click 8: every version accepts up to three positional arguments and
  raises \<open>TypeError\<close> for more than five; four and five depend on the version.
\<close>

definition click_range ::
  "(pyobj list \<Rightarrow> param_type) \<Rightarrow> pyobj list \<Rightarrow> error + param_type option" where
  "click_range range_type xs =
     (if length xs \<le> 3 then Inr (Some (range_type xs))
      else if 5 < length xs then Inl TypeError
      else Inl Unmodelled)"

text \<open>
  \<^verbatim>\<open>
  def click_type(object, default=None):
      if isinstance(object, typing._GenericAlias):
          return click_type(object.__args__[0], default)
      elif isinstance(object, type):
          if issubclass(object, datetime.datetime):
              return click.DateTime()
          if issubclass(object, typing.Tuple):
              return click.Tuple(object.__args__)
          if issubclass(object, uuid.UUID):
              return click.UUID(default)
          if object is list:
              return
          if issubclass(object, set):
              return click.Choice(object)
          if issubclass(object, pathlib.Path):
              return click.Path()
          if object in {builtins.object, typing.Any}:
              return
          return object
      else:
          if isinstance(object, tuple):
              if all(isinstance(x, int) for x in object[:2]):
                  return click.IntRange(*object)
              if all(isinstance(x, float) for x in object[:2]):
                  return click.FloatRange(*object)
  \<close>
  \<open>issubclass(c, typing.Tuple)\<close> is \<open>issubclass(c, tuple)\<close> for a class \<open>c\<close>. An object
  that passes \<open>isinstance(object, type)\<close> without being a class makes the first
  \<open>issubclass\<close> raise \<open>TypeError\<close>. \<open>click.Choice(object)\<close> receives the class itself:
  click up to 8.1 keeps it, later versions go through it and raise \<open>TypeError\<close>, so the
  outcome is left out of the model. A function body that ends without \<open>return\<close> gives
  \<open>None\<close>. The parameter \<open>default\<close> is written \<open>dflt\<close>.
\<close>

fun click_type :: "pyobj \<Rightarrow> pyobj \<Rightarrow> error + param_type option" where
  "click_type (GenericAlias n []) dflt = Inl IndexError"
| "click_type (GenericAlias n (a # rest)) dflt = click_type a dflt"
| "click_type (Cls c) dflt =
     (if subclass_of c CDatetime then Inr (Some ClickDateTime)
      else if subclass_of c CTuple then Inl AttributeError
      else if subclass_of c CUUID then click_UUID dflt
      else if c = CList then Inr None
      else if subclass_of c CSet then Inl Unmodelled
      else if subclass_of c CPath then Inr (Some ClickPath)
      else if c = CObject \<or> c = CAny then Inr None
      else Inr (Some (PyType c)))"
| "click_type ClassProxy dflt = Inl TypeError"
| "click_type (PyTuple xs) dflt =
     (if list_all isinstance_int (take 2 xs) then click_range ClickIntRange xs
      else if list_all isinstance_float (take 2 xs) then click_range ClickFloatRange xs
      else Inr None)"
| "click_type x dflt = Inr None"

section \<open>Decorators\<close>

text \<open>
  A decorator the code builds, recorded with the arguments of the call that builds it:
  \<open>click.option(decl, type=t, default=d, show_default=s, is_flag=f)\<close>,
  \<open>click.argument(decl, type=t)\<close> with or without \<open>nargs=n\<close>, and
  \<open>click.pass_context\<close>. The click framework is outside the repository: what it does
  with these arguments is not modelled.
\<close>

datatype decorator =
    ClickOption string "param_type option" pyobj bool bool
  | ClickArgument string "param_type option" "int option"
  | PassContext

text \<open>\<open>getattr(v, "__args__", (str,))\<close>, where the aliases alone have the attribute, and
  \<open>xs[0]\<close>.\<close>

fun getattr_args :: "pyobj \<Rightarrow> pyobj list" where
  "getattr_args (GenericAlias n args) = args"
| "getattr_args (BuiltinAlias c args) = args"
| "getattr_args v = [Cls CStr]"

fun first_item :: "pyobj list \<Rightarrow> error + pyobj" where
  "first_item [] = Inl IndexError"
| "first_item (x # xs) = Inr x"

text \<open>
  \<open>stringcase.spinalcase\<close> belongs to a third-party package; the functions below take it
  as the parameter \<open>spinalcase\<close>. Names are ASCII, so that \<open>len(k)\<close> is the length of
  the list of characters. \<open>defaults\<close> is a dictionary, read with \<open>k in defaults\<close>
  and \<open>defaults.get(k)\<close> only, and modelled as a map. \<open>annotations\<close> is a dictionary
  whose order matters, modelled by the list of its items.

  The body of the loop of \<open>decorators_from_dicts\<close>, for one item \<open>(k, v)\<close>:
  \<^verbatim>\<open>
        if k in defaults:
            t = click_type(v, defaults.get(k))
            decorators += (
                click.option(
                    "-" * (1 if len(k) == 1 else 2) + stringcase.spinalcase(k),
                    type=t,
                    default=defaults.get(k),
                    show_default=True,
                    is_flag=v is bool,
                ),
            )
        elif isinstance(v, typing._GenericAlias) or istype(v, list):
            decorators += (
                click.argument(
                    stringcase.spinalcase(k),
                    type=click_type(getattr(v, "__args__", (str,))[0]),
                    nargs=-1,
                ),
            )
        else:
            decorators += (
                click.argument(stringcase.spinalcase(k), type=click_type(v)),
            )
  \<close>
\<close>

definition decorator_for ::
  "(string \<Rightarrow> string) \<Rightarrow> (string \<rightharpoonup> pyobj) \<Rightarrow> string \<Rightarrow> pyobj \<Rightarrow> error + decorator" where
  "decorator_for spinalcase defaults k v =
     (case defaults k of
        Some d \<Rightarrow>
          (case click_type v d of
             Inl e \<Rightarrow> Inl e
           | Inr t \<Rightarrow>
               Inr (ClickOption
                      (replicate (if length k = 1 then 1 else 2) (CHR ''-'') @ spinalcase k)
                      t d True (v = Cls CBool)))
      | None \<Rightarrow>
          (case (if isinstance_GenericAlias v then Inr True else istype v CList) of
             Inl e \<Rightarrow> Inl e
           | Inr True \<Rightarrow>
               (case first_item (getattr_args v) of
                  Inl e \<Rightarrow> Inl e
                | Inr a \<Rightarrow>
                    (case click_type a PyNone of
                       Inl e \<Rightarrow> Inl e
                     | Inr t \<Rightarrow> Inr (ClickArgument (spinalcase k) t (Some (- 1)))))
           | Inr False \<Rightarrow>
               (case click_type v PyNone of
                  Inl e \<Rightarrow> Inl e
                | Inr t \<Rightarrow> Inr (ClickArgument (spinalcase k) t None))))"

text \<open>
  \<^verbatim>\<open>
  def decorators_from_dicts(annotations, defaults, *decorators):
      for k, v in annotations.items():
          ...
      return decorators
  \<close>
\<close>

fun decorators_from_dicts ::
  "(string \<Rightarrow> string) \<Rightarrow> (string \<times> pyobj) list \<Rightarrow> (string \<rightharpoonup> pyobj) \<Rightarrow> decorator list
     \<Rightarrow> error + decorator list" where
  "decorators_from_dicts spinalcase [] defaults decorators = Inr decorators"
| "decorators_from_dicts spinalcase ((k, v) # annotations) defaults decorators =
     (case decorator_for spinalcase defaults k v of
        Inl e \<Rightarrow> Inl e
      | Inr d \<Rightarrow> decorators_from_dicts spinalcase annotations defaults (decorators @ [d]))"

text \<open>
  \<^verbatim>\<open>
  def decorators_from_dict(object):
      return decorators_from_dicts(object.get("__annotations__", {}), object)
  \<close>
  \<open>object\<close> is the list of the items of the dictionary (its keys are distinct). A value
  under \<open>__annotations__\<close> that is no dictionary has no \<open>items\<close>.
\<close>

definition decorators_from_dict ::
  "(string \<Rightarrow> string) \<Rightarrow> (string \<times> pyobj) list \<Rightarrow> error + decorator list" where
  "decorators_from_dict spinalcase object =
     (case map_of object ''__annotations__'' of
        None \<Rightarrow> decorators_from_dicts spinalcase [] (map_of object) []
      | Some (PyDict annotations) \<Rightarrow>
          decorators_from_dicts spinalcase annotations (map_of object) []
      | Some x \<Rightarrow> Inl AttributeError)"

section \<open>Signatures\<close>

text \<open>
  A parameter of \<open>inspect.signature\<close>: its name, kind, annotation and default, the last
  two being \<open>inspect._empty\<close> when the signature gives none. A function: its name, what
  \<open>inspect.getdoc\<close> returns for it, and the parameters of its signature in order (their
  names are distinct).
\<close>

datatype parameter_kind =
    POSITIONAL_ONLY | POSITIONAL_OR_KEYWORD | VAR_POSITIONAL | KEYWORD_ONLY | VAR_KEYWORD

record parameter =
  name :: string
  kind :: parameter_kind
  annotation :: pyobj
  dflt :: pyobj

record func =
  func_name :: string
  getdoc :: pyobj
  parameters :: "parameter list"

text \<open>
  \<open>typing.List[x]\<close> for a class or an alias. Other subscripts are rejected or replaced
  (\<open>None\<close> by its class, a string by a forward reference, which must be an expression
  of Python) by the typing package in ways that depend on its version; they are left
  out of the model, which answers \<open>Unmodelled\<close>.
\<close>

fun typing_List :: "pyobj \<Rightarrow> error + pyobj" where
  "typing_List (Cls c) = Inr (GenericAlias ''List'' [Cls c])"
| "typing_List (GenericAlias n args) = Inr (GenericAlias ''List'' [GenericAlias n args])"
| "typing_List (BuiltinAlias c args) = Inr (GenericAlias ''List'' [BuiltinAlias c args])"
| "typing_List x = Inl Unmodelled"

text \<open>
  The two dictionaries \<open>signature_to_decorators\<close> builds:
  \<^verbatim>\<open>
        {
            k: typing.List[v.annotation]
            if v.kind == inspect._ParameterKind.VAR_POSITIONAL
            else v.annotation
            for k, v in signature.parameters.items()
            if k != "ctx"
        },
        {
            k: v.default
            for k, v in signature.parameters.items()
            if v.default != inspect._empty
        },
  \<close>
\<close>

fun signature_annotations :: "parameter list \<Rightarrow> error + (string \<times> pyobj) list" where
  "signature_annotations [] = Inr []"
| "signature_annotations (v # vs) =
     (if name v \<noteq> ''ctx'' then
        (case (if kind v = VAR_POSITIONAL then typing_List (annotation v)
               else Inr (annotation v)) of
           Inl e \<Rightarrow> Inl e
         | Inr a \<Rightarrow>
             (case signature_annotations vs of
                Inl e \<Rightarrow> Inl e
              | Inr rest \<Rightarrow> Inr ((name v, a) # rest)))
      else signature_annotations vs)"

definition signature_defaults :: "parameter list \<Rightarrow> (string \<rightharpoonup> pyobj)" where
  "signature_defaults vs =
     map_of (map (\<lambda>v. (name v, dflt v)) (filter (\<lambda>v. dflt v \<noteq> Cls CEmpty) vs))"

text \<open>
  \<^verbatim>\<open>
  def signature_to_decorators(object, *decorators):
      signature = inspect.signature(object)
      decorators += decorators_from_dicts({...}, {...})
      for k, v in signature.parameters.items():
          if k == "ctx":
              decorators += (click.pass_context,)
          break
      return decorators
  \<close>
  The last loop leaves at the end of its first round: it looks at the first parameter
  only.
\<close>

definition signature_to_decorators ::
  "(string \<Rightarrow> string) \<Rightarrow> func \<Rightarrow> decorator list \<Rightarrow> error + decorator list" where
  "signature_to_decorators spinalcase object decorators =
     (case signature_annotations (parameters object) of
        Inl e \<Rightarrow> Inl e
      | Inr annotations \<Rightarrow>
          (case decorators_from_dicts spinalcase annotations
                  (signature_defaults (parameters object)) [] of
             Inl e \<Rightarrow> Inl e
           | Inr ds \<Rightarrow>
               Inr (decorators @ ds @
                    (case parameters object of
                       [] \<Rightarrow> []
                     | v # vs \<Rightarrow> if name v = ''ctx'' then [PassContext] else []))))"

section \<open>Commands\<close>

text \<open>
  What a decorator is applied to: a function, one of the decorators above (the path of
  \<open>command is None\<close> takes the last of them), or the result of an earlier application.
  \<open>Applied d c\<close> stands for \<open>d(c)\<close>. A command is the result of
  \<open>click.command(no_args_is_help=b, **settings)(c)\<close>, recorded with these arguments.
\<close>

datatype callable = Function func | Decorator decorator | Applied decorator callable

record command =
  callback :: callable
  no_args_is_help :: bool
  attrs :: "(string \<times> pyobj) list"

text \<open>
  \<^verbatim>\<open>
  def command_from_decorators(command, *decorators, **settings):
      if command is None:
          *decorators, command = decorators
      for decorator in reversed(decorators):
          command = decorator(command)
      return click.command(no_args_is_help=bool(decorators), **settings)(command)
  \<close>
  \<open>settings\<close> is the list of the keyword arguments. One named \<open>command\<close> collides with
  the first parameter, and one named \<open>no_args_is_help\<close> with the keyword of the last
  call: Python raises \<open>TypeError\<close> for both. Unpacking an empty sequence into
  \<open>*decorators, command\<close> raises \<open>ValueError\<close>.
\<close>

definition command_from_decorators ::
  "callable option \<Rightarrow> decorator list \<Rightarrow> (string \<times> pyobj) list \<Rightarrow> error + command" where
  "command_from_decorators command decorators settings =
     (if ''command'' \<in> set (map fst settings) then Inl TypeError
      else
        (case (case command of
                 None \<Rightarrow>
                   (if decorators = [] then Inl ValueError
                    else Inr (butlast decorators, Decorator (last decorators)))
               | Some c \<Rightarrow> Inr (decorators, c)) of
           Inl e \<Rightarrow> Inl e
         | Inr (decorators', command') \<Rightarrow>
             (if ''no_args_is_help'' \<in> set (map fst settings) then Inl TypeError
              else
                Inr \<lparr>callback = fold Applied (rev decorators') command',
                     no_args_is_help = (decorators' \<noteq> []),
                     attrs = settings\<rparr>)))"

text \<open>The decorators applied to reach a callable, the first applied first.\<close>

fun applied :: "callable \<Rightarrow> decorator list" where
  "applied (Applied d c) = applied c @ [d]"
| "applied c = []"

section \<open>autoclick\<close>

text \<open>
  An item given to \<open>autoclick\<close>: a \<open>click.Command\<close>, a function, or any other object (a
  dictionary among them). A group is modelled by the list of the commands given to its
  \<open>add_command\<close>, in the order of the calls; a group object is true in \<open>group or ...\<close>.
  \<^verbatim>\<open>
  def autoclick(*object, group=None, **settings):
      app = group or click.Group()
      for command in object:
          if isinstance(command, click.Command):
              app.add_command(command)
          elif isinstance(command, types.FunctionType):
              decorators = signature_to_decorators(command)
              command = command_from_decorators(
                  command, *decorators, **settings, help=inspect.getdoc(command)
              )
              app.add_command(command)
          elif isinstance(command, dict):
              decorators = decorators_from_dict(command)
              command = command_from_decorators(None, *decorators, **settings)
      return command if len(object) == 1 else app
  \<close>
  The loop is \<open>autoclick_loop\<close>, with the state \<open>app\<close> and the variable \<open>command\<close>
  (\<open>None\<close> while it is unbound). A setting named \<open>help\<close> collides with the keyword
  \<open>help\<close> of the call in the branch of functions. The parameter \<open>group\<close> is written
  \<open>group'\<close>.
\<close>

datatype item = ItemCommand command | ItemFunction func | ItemObject pyobj

datatype returned = ReturnItem item | ReturnGroup "command list"

fun autoclick_loop ::
  "(string \<Rightarrow> string) \<Rightarrow> (string \<times> pyobj) list \<Rightarrow> item list \<Rightarrow> command list \<Rightarrow> item option
     \<Rightarrow> error + command list \<times> item option" where
  "autoclick_loop spinalcase settings [] app command = Inr (app, command)"
| "autoclick_loop spinalcase settings (ItemCommand c # object) app command =
     autoclick_loop spinalcase settings object (app @ [c]) (Some (ItemCommand c))"
| "autoclick_loop spinalcase settings (ItemFunction f # object) app command =
     (case signature_to_decorators spinalcase f [] of
        Inl e \<Rightarrow> Inl e
      | Inr decorators \<Rightarrow>
          (if ''help'' \<in> set (map fst settings) then Inl TypeError
           else
             (case command_from_decorators (Some (Function f)) decorators
                     (settings @ [(''help'', getdoc f)]) of
                Inl e \<Rightarrow> Inl e
              | Inr c \<Rightarrow>
                  autoclick_loop spinalcase settings object (app @ [c])
                    (Some (ItemCommand c)))))"
| "autoclick_loop spinalcase settings (ItemObject (PyDict d) # object) app command =
     (case decorators_from_dict spinalcase d of
        Inl e \<Rightarrow> Inl e
      | Inr decorators \<Rightarrow>
          (case command_from_decorators None decorators settings of
             Inl e \<Rightarrow> Inl e
           | Inr c \<Rightarrow>
               autoclick_loop spinalcase settings object app (Some (ItemCommand c))))"
| "autoclick_loop spinalcase settings (ItemObject x # object) app command =
     autoclick_loop spinalcase settings object app (Some (ItemObject x))"

definition autoclick ::
  "(string \<Rightarrow> string) \<Rightarrow> item list \<Rightarrow> command list option \<Rightarrow> (string \<times> pyobj) list
     \<Rightarrow> error + returned" where
  "autoclick spinalcase object group' settings =
     (case autoclick_loop spinalcase settings object
             (case group' of None \<Rightarrow> [] | Some g \<Rightarrow> g) None of
        Inl e \<Rightarrow> Inl e
      | Inr (app, command) \<Rightarrow>
          (if length object = 1 then
             (case command of
                None \<Rightarrow> Inl UnboundLocalError
              | Some c \<Rightarrow> Inr (ReturnItem c))
           else Inr (ReturnGroup app)))"

section \<open>Examples of inputs\<close>

text \<open>
  On a name made of lower-case letters, digits and underscores,
  \<open>stringcase.spinalcase\<close> replaces each underscore by a hyphen. The examples use this
  function for the parameter \<open>spinalcase\<close>.
\<close>

definition spinalcase_lower :: "string \<Rightarrow> string" where
  "spinalcase_lower s = map (\<lambda>c. if c = CHR ''_'' then CHR ''-'' else c) s"

text \<open>
  The specification says of a variable-positional parameter (\<open>*args\<close>) that it "is
  treated as if its declared type were a list of its annotated element type".
  \<open>as_list_parameter\<close> follows these words: it turns such a parameter into an ordinary
  one annotated with \<open>typing.List\<close> of its annotation, and leaves the others alone.
\<close>

definition as_list_parameter :: "parameter \<Rightarrow> parameter" where
  "as_list_parameter v =
     (if kind v = VAR_POSITIONAL
      then v\<lparr>kind := POSITIONAL_OR_KEYWORD, annotation := GenericAlias ''List'' [annotation v]\<rparr>
      else v)"

text \<open>
  \<open>def f(a, b: int = 2, *c: str)\<close>, \<open>def g(a, ctx)\<close>,
  \<open>def h(ctx, name: str)\<close> with the docstring \<open>Say hello.\<close>, and the dictionary
  \<open>{"__annotations__": {"a": int}}\<close>.
\<close>

definition example_abc :: func where
  "example_abc =
     \<lparr>func_name = ''f'', getdoc = PyNone,
      parameters =
        [\<lparr>name = ''a'', kind = POSITIONAL_OR_KEYWORD, annotation = Cls CEmpty, dflt = Cls CEmpty\<rparr>,
         \<lparr>name = ''b'', kind = POSITIONAL_OR_KEYWORD, annotation = Cls CInt, dflt = PyInt 2\<rparr>,
         \<lparr>name = ''c'', kind = VAR_POSITIONAL, annotation = Cls CStr, dflt = Cls CEmpty\<rparr>]\<rparr>"

definition example_late_ctx :: func where
  "example_late_ctx =
     \<lparr>func_name = ''g'', getdoc = PyNone,
      parameters =
        [\<lparr>name = ''a'', kind = POSITIONAL_OR_KEYWORD, annotation = Cls CEmpty, dflt = Cls CEmpty\<rparr>,
         \<lparr>name = ''ctx'', kind = POSITIONAL_OR_KEYWORD, annotation = Cls CEmpty, dflt = Cls CEmpty\<rparr>]\<rparr>"

definition example_first_ctx :: func where
  "example_first_ctx =
     \<lparr>func_name = ''h'', getdoc = PyStr ''Say hello.'',
      parameters =
        [\<lparr>name = ''ctx'', kind = POSITIONAL_OR_KEYWORD, annotation = Cls CEmpty, dflt = Cls CEmpty\<rparr>,
         \<lparr>name = ''name'', kind = POSITIONAL_OR_KEYWORD, annotation = Cls CStr, dflt = Cls CEmpty\<rparr>]\<rparr>"

definition example_mapping :: "(string \<times> pyobj) list" where
  "example_mapping = [(''__annotations__'', PyDict [(''a'', Cls CInt)])]"

section \<open>The type mapping\<close>

text \<open>
  Claim C10, as stated, fails: \<open>istype\<close> is not total on the values that are no
  classes. An object that is no class while its \<open>__class__\<close> reports \<open>type\<close> passes the
  guard \<open>isinstance(x, type)\<close>, and \<open>issubclass\<close> raises \<open>TypeError\<close> on it.
\<close>

theorem istype_proxy_counterexample:
  "\<not> is_class ClassProxy \<and> isinstance_type ClassProxy \<and>
   istype ClassProxy CList = Inl TypeError"
  by (simp add: istype_def)

text \<open>
  Claim C10, amended. For every value that does not pass \<open>isinstance(x, type)\<close>,
  \<open>istype\<close> returns \<open>False\<close> and does not raise. For a class it returns the subclass
  relation. For a value that passes \<open>isinstance(x, type)\<close> it does what \<open>issubclass\<close>
  does.
\<close>

theorem istype_guard:
  "(\<not> isinstance_type x \<longrightarrow> istype x y = Inr False) \<and>
   istype (Cls c) y = Inr (subclass_of c y) \<and>
   (isinstance_type x \<longrightarrow> istype x y = issubclass x y)"
  by (simp add: istype_def)

theorem istype_guard_witness:
  "\<not> isinstance_type (PyInt 3) \<and> istype (PyInt 3) CList = Inr False \<and>
   \<not> isinstance_type (BuiltinAlias CList [Cls CStr]) \<and>
   istype (BuiltinAlias CList [Cls CStr]) CList = Inr False \<and>
   isinstance_type (Cls CBool) \<and> istype (Cls CBool) CInt = Inr True \<and>
   istype (Cls CBool) CList = Inr False"
  using istype_guard [of "PyInt 3" CList CBool]
    istype_guard [of "BuiltinAlias CList [Cls CStr]" CList CBool]
    istype_guard [of "Cls CBool" CInt CBool]
    istype_guard [of "Cls CBool" CList CBool]
  by (simp add: subclass_of_def)

text \<open>
  A class below \<open>uuid.UUID\<close> is below neither \<open>datetime.datetime\<close> nor \<open>tuple\<close>, the
  two classes \<open>click_type\<close> tests first: for such a class \<open>click_type\<close> returns what the
  call \<open>click.UUID(default)\<close> returns.
\<close>

lemma uuid_exclusive:
  "subclass_of c CUUID \<Longrightarrow> \<not> subclass_of c CDatetime \<and> \<not> subclass_of c CTuple"
  by (induction c) (auto simp: subclass_of_def)

lemma click_type_uuid_call:
  "subclass_of c CUUID \<Longrightarrow> click_type (Cls c) d = click_UUID d"
  using uuid_exclusive [of c] by simp

text \<open>
  Claim C9 says that for a UUID type \<open>click_type\<close> returns a UUID validator seeded with
  the default. The code calls \<open>click.UUID(default)\<close>, and \<open>click.UUID\<close> is the validator
  itself, an instance: the call converts the default. For \<open>uuid.UUID\<close> the code
  returns \<open>None\<close> when no default is given, the \<open>uuid.UUID\<close> value of a default that is
  the text of a UUID, and raises \<open>BadParameter\<close> for the default \<open>"0"\<close>. It returns a
  validator in none of the three.
\<close>

theorem click_type_uuid_converts:
  "click_type (Cls CUUID) PyNone = Inr None \<and>
   click_type (Cls CUUID) (PyStr ''12345678-1234-5678-1234-567812345678'')
     = Inr (Some (UUIDValue ''12345678-1234-5678-1234-567812345678'')) \<and>
   click_type (Cls CUUID) (PyStr ''0'') = Inl BadParameter"
  by (simp add: subclass_of_def uuid_text_def hexdigit_def)

text \<open>
  Claim C8. For a tuple (a value, not a class) of two integers \<open>click_type\<close> returns
  \<open>click.IntRange\<close> over the two; for a tuple of two floats, \<open>click.FloatRange\<close> over
  the two. The integers are tested first: a tuple of at most two elements that passes
  the test for integers gives \<open>click.IntRange\<close>, whatever the test for floats would
  say (both tests pass on the empty tuple).
\<close>

theorem click_type_tuple_ranges:
  "(isinstance_int a \<and> isinstance_int b \<longrightarrow>
      click_type (PyTuple [a, b]) d = Inr (Some (ClickIntRange [a, b]))) \<and>
   (isinstance_float a \<and> isinstance_float b \<longrightarrow>
      click_type (PyTuple [a, b]) d = Inr (Some (ClickFloatRange [a, b]))) \<and>
   (length xs \<le> 2 \<and> list_all isinstance_int (take 2 xs) \<longrightarrow>
      click_type (PyTuple xs) d = Inr (Some (ClickIntRange xs)))"
proof -
  have "\<not> isinstance_int a" if "isinstance_float a" for a
    using that by (cases a) simp_all
  then show ?thesis by (auto simp: click_range_def)
qed

theorem click_type_tuple_ranges_witness:
  "isinstance_int (PyInt 1) \<and> isinstance_int (PyInt 10) \<and>
   click_type (PyTuple [PyInt 1, PyInt 10]) (PyInt 5)
     = Inr (Some (ClickIntRange [PyInt 1, PyInt 10])) \<and>
   isinstance_float (PyFloat 0.5) \<and> isinstance_float (PyFloat 1.5) \<and>
   click_type (PyTuple [PyFloat 0.5, PyFloat 1.5]) PyNone
     = Inr (Some (ClickFloatRange [PyFloat 0.5, PyFloat 1.5])) \<and>
   length ([] :: pyobj list) \<le> 2 \<and> list_all isinstance_int (take 2 []) \<and>
   click_type (PyTuple []) PyNone = Inr (Some (ClickIntRange []))"
  using click_type_tuple_ranges [of "PyInt 1" "PyInt 10" "PyInt 5" "[]"]
    click_type_tuple_ranges [of "PyFloat 0.5" "PyFloat 1.5" PyNone "[]"]
  by simp

section \<open>The decorators of a dictionary of annotations\<close>

text \<open>
  \<open>decorators_from_dicts\<close> appends one decorator for each item of \<open>annotations\<close>, in
  the order of the items, after the decorators it was given.
\<close>

lemma decorators_from_dicts_items:
  "decorators_from_dicts sc anns defaults ds0 = Inr ds \<Longrightarrow>
   \<exists>bs. ds = ds0 @ bs \<and> map (\<lambda>(k, v). decorator_for sc defaults k v) anns = map Inr bs"
proof (induction anns arbitrary: ds0)
  case Nil
  then show ?case by simp
next
  case (Cons kv anns)
  obtain k v where kv: "kv = (k, v)" by (cases kv)
  from Cons.prems kv obtain d where d: "decorator_for sc defaults k v = Inr d"
    and rest: "decorators_from_dicts sc anns defaults (ds0 @ [d]) = Inr ds"
    by (auto split: sum.splits)
  from Cons.IH [OF rest] obtain bs where "ds = (ds0 @ [d]) @ bs"
    and "map (\<lambda>(k, v). decorator_for sc defaults k v) anns = map Inr bs" by blast
  then have "ds = ds0 @ (d # bs) \<and>
    map (\<lambda>(k, v). decorator_for sc defaults k v) (kv # anns) = map Inr (d # bs)"
    using kv d by simp
  then show ?case by blast
qed

lemma decorators_from_dicts_nth:
  assumes "decorators_from_dicts sc anns defaults ds0 = Inr ds"
    and "i < length anns" and "anns ! i = (k, v)"
  shows "decorator_for sc defaults k v = Inr (ds ! (length ds0 + i))"
proof -
  from decorators_from_dicts_items [OF assms(1)] obtain bs where ds: "ds = ds0 @ bs"
    and m: "map (\<lambda>(k, v). decorator_for sc defaults k v) anns = map Inr bs" by blast
  from m have len: "length bs = length anns" by (metis length_map)
  from m have "map (\<lambda>(k, v). decorator_for sc defaults k v) anns ! i = map Inr bs ! i"
    by simp
  with assms(2,3) len have "decorator_for sc defaults k v = Inr (bs ! i)" by simp
  with ds show ?thesis by simp
qed

text \<open>It returns when each item has a decorator, that is when no call of \<open>click_type\<close>
  or \<open>__args__[0]\<close> raises.\<close>

lemma decorators_from_dicts_returns:
  "(\<And>k v. (k, v) \<in> set anns \<Longrightarrow> \<exists>d. decorator_for sc defaults k v = Inr d) \<Longrightarrow>
   \<exists>ds. decorators_from_dicts sc anns defaults ds0 = Inr ds"
proof (induction anns arbitrary: ds0)
  case Nil
  then show ?case by simp
next
  case (Cons kv anns)
  obtain k v where kv: "kv = (k, v)" by (cases kv)
  with Cons.prems obtain d where d: "decorator_for sc defaults k v = Inr d" by auto
  have "\<exists>ds. decorators_from_dicts sc anns defaults (ds0 @ [d]) = Inr ds"
    using Cons.prems by (intro Cons.IH) simp
  with kv d show ?case by simp
qed

lemma option_shape:
  assumes "decorators_from_dicts spinalcase annotations defaults decorators = Inr ds"
    and "i < length annotations" and "annotations ! i = (k, v)" and "defaults k = Some d"
  shows "\<exists>t. click_type v d = Inr t \<and>
           ds ! (length decorators + i) =
             ClickOption (replicate (if length k = 1 then 1 else 2) (CHR ''-'') @ spinalcase k)
               t d True (v = Cls CBool)"
  using decorators_from_dicts_nth [OF assms(1-3)] assms(4)
  by (auto simp: decorator_for_def split: sum.splits)

text \<open>
  Claim C1. Whenever \<open>decorators_from_dicts\<close> returns, the decorator of an item \<open>k: v\<close>
  whose name has the default \<open>d\<close> is a \<open>click.option\<close>, not a \<open>click.argument\<close>. Its
  name is the spinal-case form of \<open>k\<close> after one hyphen when \<open>k\<close> has one character and
  after two otherwise, its \<open>default\<close> is \<open>d\<close>, its \<open>show_default\<close> is \<open>True\<close>, and its
  \<open>type\<close> is what \<open>click_type\<close> returns for \<open>v\<close> and \<open>d\<close>.
\<close>

theorem defaulted_parameter_is_option:
  assumes "decorators_from_dicts spinalcase annotations defaults decorators = Inr ds"
    and "i < length annotations" and "annotations ! i = (k, v)" and "defaults k = Some d"
  shows "\<exists>t. click_type v d = Inr t \<and>
           ds ! (length decorators + i) =
             ClickOption (replicate (if length k = 1 then 1 else 2) (CHR ''-'') @ spinalcase k)
               t d True (v = Cls CBool)"
  using assms by (rule option_shape)

theorem defaulted_parameter_is_option_witness:
  "decorators_from_dicts spinalcase_lower
     [(''name'', Cls CStr), (''dry_run'', Cls CBool), (''n'', PyTuple [PyInt 1, PyInt 10])]
     [''dry_run'' \<mapsto> PyBool False, ''n'' \<mapsto> PyInt 5] []
   = Inr [ClickArgument ''name'' (Some (PyType CStr)) None,
          ClickOption ''--dry-run'' (Some (PyType CBool)) (PyBool False) True True,
          ClickOption ''-n'' (Some (ClickIntRange [PyInt 1, PyInt 10])) (PyInt 5) True False]"
proof -
  let ?anns = "[(''name'', Cls CStr), (''dry_run'', Cls CBool),
                (''n'', PyTuple [PyInt 1, PyInt 10])]"
  let ?defaults = "[''dry_run'' \<mapsto> PyBool False, ''n'' \<mapsto> PyInt 5]"
  let ?ds = "[ClickArgument ''name'' (Some (PyType CStr)) None,
              ClickOption ''--dry-run'' (Some (PyType CBool)) (PyBool False) True True,
              ClickOption ''-n'' (Some (ClickIntRange [PyInt 1, PyInt 10])) (PyInt 5) True
                False]"
  have run: "decorators_from_dicts spinalcase_lower ?anns ?defaults [] = Inr ?ds"
    by (simp add: decorator_for_def istype_def subclass_of_def spinalcase_lower_def
        click_range_def numeral_2_eq_2)
  have "\<exists>t. click_type (PyTuple [PyInt 1, PyInt 10]) (PyInt 5) = Inr t \<and>
          ?ds ! (length ([] :: decorator list) + 2) =
            ClickOption (replicate (if length ''n'' = 1 then 1 else 2) (CHR ''-'')
              @ spinalcase_lower ''n'') t (PyInt 5) True (PyTuple [PyInt 1, PyInt 10] = Cls CBool)"
    by (rule defaulted_parameter_is_option [OF run]) simp_all
  with run show ?thesis by simp
qed

text \<open>
  Claim C7. Whenever \<open>decorators_from_dicts\<close> returns, the option of an item \<open>k: v\<close>
  whose name has a default is built with \<open>is_flag=True\<close> if \<open>v\<close> is the class \<open>bool\<close>
  itself, and with \<open>is_flag=False\<close> for every other \<open>v\<close>.
\<close>

theorem flag_iff_bool:
  assumes "decorators_from_dicts spinalcase annotations defaults decorators = Inr ds"
    and "i < length annotations" and "annotations ! i = (k, v)" and "defaults k = Some d"
  shows "\<exists>decl t s. ds ! (length decorators + i) = ClickOption decl t d s (v = Cls CBool)"
  using option_shape [OF assms] by blast

theorem flag_iff_bool_witness:
  "decorators_from_dicts spinalcase_lower
     [(''verbose'', Cls CBool), (''count'', Cls CInt), (''on'', Cls (CUser ''Flag'' CInt))]
     [''verbose'' \<mapsto> PyBool False, ''count'' \<mapsto> PyInt 1, ''on'' \<mapsto> PyBool True] []
   = Inr [ClickOption ''--verbose'' (Some (PyType CBool)) (PyBool False) True True,
          ClickOption ''--count'' (Some (PyType CInt)) (PyInt 1) True False,
          ClickOption ''--on'' (Some (PyType (CUser ''Flag'' CInt))) (PyBool True) True False]"
proof -
  let ?anns = "[(''verbose'', Cls CBool), (''count'', Cls CInt),
                (''on'', Cls (CUser ''Flag'' CInt))]"
  let ?defaults = "[''verbose'' \<mapsto> PyBool False, ''count'' \<mapsto> PyInt 1,
                    ''on'' \<mapsto> PyBool True]"
  let ?ds = "[ClickOption ''--verbose'' (Some (PyType CBool)) (PyBool False) True True,
              ClickOption ''--count'' (Some (PyType CInt)) (PyInt 1) True False,
              ClickOption ''--on'' (Some (PyType (CUser ''Flag'' CInt))) (PyBool True) True
                False]"
  have run: "decorators_from_dicts spinalcase_lower ?anns ?defaults [] = Inr ?ds"
    by (simp add: decorator_for_def istype_def subclass_of_def spinalcase_lower_def
        numeral_2_eq_2)
  have "\<exists>decl t s. ?ds ! (length ([] :: decorator list) + 0) =
          ClickOption decl t (PyBool False) s (Cls CBool = Cls CBool)"
    using flag_iff_bool [OF run, where i = 0 and k = "''verbose''" and v = "Cls CBool"
        and d = "PyBool False"]
    by simp
  with run show ?thesis by simp
qed

lemma variadic_shape:
  assumes "decorators_from_dicts spinalcase annotations defaults decorators = Inr ds"
    and "i < length annotations" and "annotations ! i = (k, v)" and "defaults k = None"
  shows "(v = GenericAlias n (a # rest) \<longrightarrow>
           (\<exists>t. click_type a PyNone = Inr t \<and>
             ds ! (length decorators + i) = ClickArgument (spinalcase k) t (Some (- 1)))) \<and>
         (v = Cls c \<and> subclass_of c CList \<longrightarrow>
           ds ! (length decorators + i) =
             ClickArgument (spinalcase k) (Some (PyType CStr)) (Some (- 1))) \<and>
         (v = BuiltinAlias b args \<longrightarrow>
           ds ! (length decorators + i) = ClickArgument (spinalcase k) None None)"
  using decorators_from_dicts_nth [OF assms(1-3)] assms(4)
  by (auto simp: decorator_for_def istype_def subclass_of_def split: sum.splits)

section \<open>The decorators of a signature\<close>

text \<open>
  The first dictionary has one item for each parameter not named \<open>ctx\<close>, in the order
  of the signature; the second maps the name of a parameter with a default to that
  default.
\<close>

lemma signature_annotations_keys:
  "signature_annotations vs = Inr anns \<Longrightarrow>
   map fst anns = filter (\<lambda>k. k \<noteq> ''ctx'') (map name vs)"
  by (induction vs arbitrary: anns) (auto split: if_splits sum.splits)

lemma signature_defaults_Some:
  "distinct (map name vs) \<Longrightarrow> v \<in> set vs \<Longrightarrow> dflt v \<noteq> Cls CEmpty \<Longrightarrow>
   signature_defaults vs (name v) = Some (dflt v)"
  unfolding signature_defaults_def by (induction vs) (auto simp: image_iff)

lemma signature_defaults_None:
  "distinct (map name vs) \<Longrightarrow> v \<in> set vs \<Longrightarrow> dflt v = Cls CEmpty \<Longrightarrow>
   signature_defaults vs (name v) = None"
  unfolding signature_defaults_def by (induction vs) (auto simp: map_of_eq_None_iff image_iff)

lemma typing_List_shape: "typing_List a = Inr t \<Longrightarrow> t = GenericAlias ''List'' [a]"
  by (cases a) auto

lemma signature_annotations_as_list:
  "signature_annotations vs = Inr anns \<Longrightarrow>
   signature_annotations (map as_list_parameter vs) = Inr anns"
  by (induction vs arbitrary: anns)
    (auto simp: as_list_parameter_def split: if_splits sum.splits dest: typing_List_shape)

lemma signature_defaults_as_list:
  "signature_defaults (map as_list_parameter vs) = signature_defaults vs"
proof -
  have "map (\<lambda>v. (name v, dflt v)) (filter (\<lambda>v. dflt v \<noteq> Cls CEmpty) (map as_list_parameter vs))
      = map (\<lambda>v. (name v, dflt v)) (filter (\<lambda>v. dflt v \<noteq> Cls CEmpty) vs)"
    by (induction vs) (auto simp: as_list_parameter_def)
  then show ?thesis by (simp add: signature_defaults_def)
qed

lemma first_name_as_list:
  "(case map as_list_parameter vs of [] \<Rightarrow> [] | v # vs \<Rightarrow> if name v = ''ctx'' then [PassContext] else [])
   = (case vs of [] \<Rightarrow> [] | v # vs \<Rightarrow> if name v = ''ctx'' then [PassContext] else [])"
  by (cases vs) (auto simp: as_list_parameter_def)

lemma signature_to_decorators_as_list:
  assumes "signature_to_decorators sc object ds0 = Inr ds"
  shows "signature_to_decorators sc
           (object\<lparr>parameters := map as_list_parameter (parameters object)\<rparr>) ds0 = Inr ds"
proof -
  from assms obtain anns where anns: "signature_annotations (parameters object) = Inr anns"
    by (auto simp: signature_to_decorators_def split: sum.splits)
  show ?thesis
    using assms
    by (auto simp: signature_to_decorators_def signature_annotations_as_list [OF anns] anns
        signature_defaults_as_list first_name_as_list split: sum.splits)
qed

text \<open>
  Claim C2, as stated, fails on the parameterized generics of PEP 585: \<open>list[str]\<close> is
  neither an instance of \<open>typing._GenericAlias\<close> nor a class, and a parameter
  \<open>paths: list[str]\<close> gets an ordinary argument, without \<open>nargs\<close> and with the type
  \<open>None\<close>. And an alias without type arguments (\<open>typing.Tuple[()]\<close>) does not fall
  back to \<open>str\<close>: the code raises \<open>IndexError\<close>.
\<close>

theorem variadic_counterexample:
  "decorators_from_dicts spinalcase_lower
     [(''paths'', BuiltinAlias CList [Cls CStr])] Map.empty []
   = Inr [ClickArgument ''paths'' None None] \<and>
   decorators_from_dicts spinalcase_lower
     [(''pair'', GenericAlias ''Tuple'' [])] Map.empty []
   = Inl IndexError"
  by (simp add: decorator_for_def istype_def spinalcase_lower_def)

text \<open>
  Claim C2, amended. Whenever \<open>decorators_from_dicts\<close> returns, the decorator of an
  item \<open>k: v\<close> whose name has no default is a \<open>click.argument\<close> with \<open>nargs=-1\<close> named
  by the spinal-case form of \<open>k\<close>, both when \<open>v\<close> is an alias of the typing package
  with at least one type argument, with the \<open>type\<close> that \<open>click_type\<close> returns for the
  first of them, and when \<open>v\<close> is the class \<open>list\<close> (or a class derived from it), with
  the \<open>type\<close> \<open>str\<close>. An alias of PEP 585 is not taken for a generic: it gets an
  ordinary \<open>click.argument\<close> with the type \<open>None\<close>. And \<open>signature_to_decorators\<close>
  treats a variable-positional parameter as an ordinary one annotated with
  \<open>typing.List\<close> of its annotation: rewriting the signature so changes nothing in what
  it returns.
\<close>

theorem variadic_argument:
  "(decorators_from_dicts spinalcase annotations defaults decorators = Inr ds \<and>
    i < length annotations \<and> annotations ! i = (k, v) \<and> defaults k = None \<longrightarrow>
      (v = GenericAlias n (a # rest) \<longrightarrow>
         (\<exists>t. click_type a PyNone = Inr t \<and>
           ds ! (length decorators + i) = ClickArgument (spinalcase k) t (Some (- 1)))) \<and>
      (v = Cls c \<and> subclass_of c CList \<longrightarrow>
         ds ! (length decorators + i) =
           ClickArgument (spinalcase k) (Some (PyType CStr)) (Some (- 1))) \<and>
      (v = BuiltinAlias b args \<longrightarrow>
         ds ! (length decorators + i) = ClickArgument (spinalcase k) None None)) \<and>
   (signature_to_decorators spinalcase object earlier = Inr ds' \<longrightarrow>
      signature_to_decorators spinalcase
        (object\<lparr>parameters := map as_list_parameter (parameters object)\<rparr>) earlier = Inr ds')"
  using variadic_shape [of spinalcase annotations defaults decorators ds i k v n a rest c b args]
    signature_to_decorators_as_list [of spinalcase object earlier ds']
  by blast

lemma example_abc_decorators:
  "signature_to_decorators spinalcase_lower example_abc [] =
     Inr [ClickArgument ''a'' (Some (PyType CEmpty)) None,
          ClickOption ''-b'' (Some (PyType CInt)) (PyInt 2) True False,
          ClickArgument ''c'' (Some (PyType CStr)) (Some (- 1))]"
  by (simp add: signature_to_decorators_def example_abc_def signature_defaults_def
      decorator_for_def istype_def subclass_of_def spinalcase_lower_def)

theorem variadic_argument_witness:
  "decorators_from_dicts spinalcase_lower
     [(''paths'', GenericAlias ''List'' [Cls CPath]), (''xs'', Cls CList),
      (''ys'', BuiltinAlias CList [Cls CStr])] Map.empty []
   = Inr [ClickArgument ''paths'' (Some ClickPath) (Some (- 1)),
          ClickArgument ''xs'' (Some (PyType CStr)) (Some (- 1)),
          ClickArgument ''ys'' None None] \<and>
   click_type (Cls CPath) PyNone = Inr (Some ClickPath) \<and>
   subclass_of CList CList \<and>
   signature_to_decorators spinalcase_lower example_abc []
   = Inr [ClickArgument ''a'' (Some (PyType CEmpty)) None,
          ClickOption ''-b'' (Some (PyType CInt)) (PyInt 2) True False,
          ClickArgument ''c'' (Some (PyType CStr)) (Some (- 1))] \<and>
   signature_to_decorators spinalcase_lower
     (example_abc\<lparr>parameters := map as_list_parameter (parameters example_abc)\<rparr>) []
   = Inr [ClickArgument ''a'' (Some (PyType CEmpty)) None,
          ClickOption ''-b'' (Some (PyType CInt)) (PyInt 2) True False,
          ClickArgument ''c'' (Some (PyType CStr)) (Some (- 1))]"
proof -
  let ?anns = "[(''paths'', GenericAlias ''List'' [Cls CPath]), (''xs'', Cls CList),
                (''ys'', BuiltinAlias CList [Cls CStr])]"
  let ?ds = "[ClickArgument ''paths'' (Some ClickPath) (Some (- 1)),
              ClickArgument ''xs'' (Some (PyType CStr)) (Some (- 1)),
              ClickArgument ''ys'' None None]"
  have run: "decorators_from_dicts spinalcase_lower ?anns Map.empty [] = Inr ?ds"
    by (simp add: decorator_for_def istype_def subclass_of_def spinalcase_lower_def)
  have sub: "subclass_of CList CList"
    by (simp add: subclass_of_def)
  note generic = variadic_argument [where spinalcase = spinalcase_lower and annotations = ?anns
      and defaults = Map.empty and decorators = "[]" and ds = ?ds and i = 0
      and k = "''paths''" and v = "GenericAlias ''List'' [Cls CPath]" and n = "''List''"
      and a = "Cls CPath" and rest = "[]" and object = example_abc and earlier = "[]"]
  note bare = variadic_argument [where spinalcase = spinalcase_lower and annotations = ?anns
      and defaults = Map.empty and decorators = "[]" and ds = ?ds and i = 1
      and k = "''xs''" and v = "Cls CList" and c = CList and object = example_abc
      and earlier = "[]"]
  note builtin = variadic_argument [where spinalcase = spinalcase_lower and annotations = ?anns
      and defaults = Map.empty and decorators = "[]" and ds = ?ds and i = 2
      and k = "''ys''" and v = "BuiltinAlias CList [Cls CStr]" and b = CList
      and args = "[Cls CStr]" and object = example_abc and earlier = "[]"]
  from generic run
  have "\<exists>t. click_type (Cls CPath) PyNone = Inr t \<and>
      ?ds ! (length ([] :: decorator list) + 0)
        = ClickArgument (spinalcase_lower ''paths'') t (Some (- 1))"
    by simp
  then have ty: "click_type (Cls CPath) PyNone = Inr (Some ClickPath)"
    by auto
  from bare run sub
  have "?ds ! (length ([] :: decorator list) + 1)
      = ClickArgument (spinalcase_lower ''xs'') (Some (PyType CStr)) (Some (- 1))"
    by simp
  from builtin run
  have "?ds ! (length ([] :: decorator list) + 2)
      = ClickArgument (spinalcase_lower ''ys'') None None"
    by simp
  from generic example_abc_decorators have
    "signature_to_decorators spinalcase_lower
       (example_abc\<lparr>parameters := map as_list_parameter (parameters example_abc)\<rparr>) []
     = Inr [ClickArgument ''a'' (Some (PyType CEmpty)) None,
            ClickOption ''-b'' (Some (PyType CInt)) (PyInt 2) True False,
            ClickArgument ''c'' (Some (PyType CStr)) (Some (- 1))]"
    by blast
  with run ty sub example_abc_decorators show ?thesis by simp
qed

lemma decorator_for_visible: "decorator_for sc defaults k v = Inr d \<Longrightarrow> d \<noteq> PassContext"
  by (auto simp: decorator_for_def split: option.splits sum.splits bool.splits if_splits)

lemma fold_Applied: "fold Applied (rev ds) c = foldr Applied ds c"
  by (simp add: foldr_conv_fold)

lemma applied_foldr: "applied (foldr Applied ds c) = applied c @ rev ds"
  by (induction ds) simp_all

lemma command_callback:
  "command_from_decorators (Some c) ds settings = Inr cmd \<Longrightarrow>
   callback cmd = foldr Applied ds c \<and> no_args_is_help cmd = (ds \<noteq> []) \<and> attrs cmd = settings"
  by (auto simp: command_from_decorators_def fold_Applied split: if_splits)

lemma command_callback_None:
  "command_from_decorators None ds settings = Inr cmd \<Longrightarrow>
   ds \<noteq> [] \<and> callback cmd = foldr Applied (butlast ds) (Decorator (last ds)) \<and>
   no_args_is_help cmd = (butlast ds \<noteq> []) \<and> attrs cmd = settings"
  by (auto simp: command_from_decorators_def fold_Applied split: if_splits)

text \<open>
  Claim C3. Whenever \<open>signature_to_decorators\<close> returns, its decorators are, after
  those it was given, one for each parameter not named \<open>ctx\<close>, in the order of the
  signature (followed by \<open>click.pass_context\<close> when the first parameter is \<open>ctx\<close>).
  \<open>command_from_decorators\<close> applies the decorators it is given from the last to the
  first, so that the callback is \<open>d1(d2(...dn(c)))\<close>, as the decorators stacked in the
  order of the signature above the function would give.
\<close>

theorem order_preserved:
  "(signature_to_decorators spinalcase object earlier = Inr ds \<longrightarrow>
      (\<exists>anns bs. signature_annotations (parameters object) = Inr anns \<and>
         map fst anns = filter (\<lambda>k. k \<noteq> ''ctx'') (map name (parameters object)) \<and>
         map (\<lambda>(k, v). decorator_for spinalcase (signature_defaults (parameters object)) k v)
           anns = map Inr bs \<and>
         ds = earlier @ bs @
           (if map name (take 1 (parameters object)) = [''ctx''] then [PassContext] else []))) \<and>
   (command_from_decorators (Some c) decorators settings = Inr cmd \<longrightarrow>
      callback cmd = foldr Applied decorators c \<and>
      applied (callback cmd) = applied c @ rev decorators)"
proof -
  have "\<exists>anns bs. signature_annotations (parameters object) = Inr anns \<and>
         map fst anns = filter (\<lambda>k. k \<noteq> ''ctx'') (map name (parameters object)) \<and>
         map (\<lambda>(k, v). decorator_for spinalcase (signature_defaults (parameters object)) k v)
           anns = map Inr bs \<and>
         ds = earlier @ bs @
           (if map name (take 1 (parameters object)) = [''ctx''] then [PassContext] else [])"
    if run: "signature_to_decorators spinalcase object earlier = Inr ds"
  proof -
    let ?vs = "parameters object"
    from run obtain anns bs where anns: "signature_annotations ?vs = Inr anns"
      and bs: "decorators_from_dicts spinalcase anns (signature_defaults ?vs) [] = Inr bs"
      and ds: "ds = earlier @ bs @
        (case ?vs of [] \<Rightarrow> [] | v # vs \<Rightarrow> if name v = ''ctx'' then [PassContext] else [])"
      by (auto simp: signature_to_decorators_def split: sum.splits)
    from decorators_from_dicts_items [OF bs]
    have m: "map (\<lambda>(k, v). decorator_for spinalcase (signature_defaults ?vs) k v) anns
        = map Inr bs" by simp
    have marker: "(case ?vs of [] \<Rightarrow> [] | v # vs \<Rightarrow> if name v = ''ctx'' then [PassContext] else [])
        = (if map name (take 1 ?vs) = [''ctx''] then [PassContext] else [])"
      by (cases ?vs) auto
    from anns signature_annotations_keys [OF anns] m ds marker show ?thesis by auto
  qed
  moreover have "callback cmd = foldr Applied decorators c \<and>
      applied (callback cmd) = applied c @ rev decorators"
    if "command_from_decorators (Some c) decorators settings = Inr cmd"
    using command_callback [OF that] by (simp add: applied_foldr)
  ultimately show ?thesis by blast
qed

theorem order_preserved_witness:
  "signature_to_decorators spinalcase_lower example_abc [] =
     Inr [ClickArgument ''a'' (Some (PyType CEmpty)) None,
          ClickOption ''-b'' (Some (PyType CInt)) (PyInt 2) True False,
          ClickArgument ''c'' (Some (PyType CStr)) (Some (- 1))] \<and>
   (\<exists>anns. signature_annotations (parameters example_abc) = Inr anns \<and>
           map fst anns = [''a'', ''b'', ''c'']) \<and>
   (\<exists>cmd. command_from_decorators (Some (Function example_abc))
            [ClickArgument ''a'' (Some (PyType CEmpty)) None,
             ClickOption ''-b'' (Some (PyType CInt)) (PyInt 2) True False,
             ClickArgument ''c'' (Some (PyType CStr)) (Some (- 1))] [] = Inr cmd \<and>
          callback cmd =
            Applied (ClickArgument ''a'' (Some (PyType CEmpty)) None)
              (Applied (ClickOption ''-b'' (Some (PyType CInt)) (PyInt 2) True False)
                (Applied (ClickArgument ''c'' (Some (PyType CStr)) (Some (- 1)))
                  (Function example_abc))) \<and>
          applied (callback cmd) =
            [ClickArgument ''c'' (Some (PyType CStr)) (Some (- 1)),
             ClickOption ''-b'' (Some (PyType CInt)) (PyInt 2) True False,
             ClickArgument ''a'' (Some (PyType CEmpty)) None])"
proof -
  let ?ds = "[ClickArgument ''a'' (Some (PyType CEmpty)) None,
              ClickOption ''-b'' (Some (PyType CInt)) (PyInt 2) True False,
              ClickArgument ''c'' (Some (PyType CStr)) (Some (- 1))]"
  obtain cmd where cmd: "command_from_decorators (Some (Function example_abc)) ?ds [] = Inr cmd"
    by (simp add: command_from_decorators_def)
  note inst = order_preserved [where spinalcase = spinalcase_lower and object = example_abc
      and earlier = "[]" and ds = ?ds and c = "Function example_abc" and decorators = ?ds
      and settings = "[]" and cmd = cmd]
  from inst example_abc_decorators obtain anns where
    "signature_annotations (parameters example_abc) = Inr anns"
    and "map fst anns = filter (\<lambda>k. k \<noteq> ''ctx'') (map name (parameters example_abc))"
    by blast
  then have names: "\<exists>anns. signature_annotations (parameters example_abc) = Inr anns \<and>
      map fst anns = [''a'', ''b'', ''c'']"
    by (simp add: example_abc_def)
  from inst cmd
  have "callback cmd = foldr Applied ?ds (Function example_abc) \<and>
      applied (callback cmd) = applied (Function example_abc) @ rev ?ds"
    by blast
  with cmd example_abc_decorators names show ?thesis by simp
qed

lemma signature_annotations_filter:
  "signature_annotations (filter (\<lambda>v. name v \<noteq> ''ctx'') vs) = signature_annotations vs"
  by (induction vs) (auto split: sum.splits)

lemma signature_defaults_filter:
  "k \<noteq> ''ctx'' \<Longrightarrow>
   signature_defaults (filter (\<lambda>v. name v \<noteq> ''ctx'') vs) k = signature_defaults vs k"
  unfolding signature_defaults_def by (induction vs) auto

lemma decorators_from_dicts_cong:
  "(\<And>k. k \<in> set (map fst anns) \<Longrightarrow> d1 k = d2 k) \<Longrightarrow>
   decorators_from_dicts sc anns d1 ds = decorators_from_dicts sc anns d2 ds"
proof (induction anns arbitrary: ds)
  case Nil
  then show ?case by simp
next
  case (Cons kv anns)
  obtain k v where kv: "kv = (k, v)" by (cases kv)
  from Cons.prems kv have "d1 k = d2 k" by simp
  then have "decorator_for sc d1 k v = decorator_for sc d2 k v"
    by (simp add: decorator_for_def)
  moreover have "decorators_from_dicts sc anns d1 ds' = decorators_from_dicts sc anns d2 ds'" for ds'
    using Cons.prems by (intro Cons.IH) simp
  ultimately show ?case using kv by (simp split: sum.splits)
qed

lemma ctx_marker_shape:
  assumes "signature_to_decorators sc object ds0 = Inr ds"
  shows "\<exists>bs. signature_to_decorators sc
                (object\<lparr>parameters := filter (\<lambda>v. name v \<noteq> ''ctx'') (parameters object)\<rparr>) []
              = Inr bs \<and>
            PassContext \<notin> set bs \<and>
            ds = ds0 @ bs @
              (if map name (take 1 (parameters object)) = [''ctx''] then [PassContext] else [])"
proof -
  let ?vs = "parameters object"
  let ?vs' = "filter (\<lambda>v. name v \<noteq> ''ctx'') ?vs"
  from assms obtain anns bs where anns: "signature_annotations ?vs = Inr anns"
    and bs: "decorators_from_dicts sc anns (signature_defaults ?vs) [] = Inr bs"
    and ds: "ds = ds0 @ bs @
      (case ?vs of [] \<Rightarrow> [] | v # vs \<Rightarrow> if name v = ''ctx'' then [PassContext] else [])"
    by (auto simp: signature_to_decorators_def split: sum.splits)
  have keys: "k \<noteq> ''ctx''" if "k \<in> set (map fst anns)" for k
    using that signature_annotations_keys [OF anns] by auto
  have same: "decorators_from_dicts sc anns (signature_defaults ?vs') []
      = decorators_from_dicts sc anns (signature_defaults ?vs) []"
    by (rule decorators_from_dicts_cong) (simp add: keys signature_defaults_filter)
  have first: "(case ?vs' of [] \<Rightarrow> [] | v # vs \<Rightarrow> if name v = ''ctx'' then [PassContext] else [])
      = ([] :: decorator list)"
  proof (cases ?vs')
    case Nil
    then show ?thesis by simp
  next
    case (Cons v vs)
    then have "v \<in> set ?vs'" by simp
    then have "name v \<noteq> ''ctx''" by simp
    with Cons show ?thesis by simp
  qed
  have run: "signature_to_decorators sc (object\<lparr>parameters := ?vs'\<rparr>) [] = Inr bs"
    by (simp add: signature_to_decorators_def signature_annotations_filter anns same bs first)
  from decorators_from_dicts_items [OF bs] obtain bs' where "bs = [] @ bs'"
    and m: "map (\<lambda>(k, v). decorator_for sc (signature_defaults ?vs) k v) anns = map Inr bs'"
    by blast
  then have bs': "bs' = bs" by simp
  have visible: "PassContext \<notin> set bs"
  proof
    assume "PassContext \<in> set bs"
    then have "Inr PassContext \<in> set (map Inr bs)" by simp
    with m bs' have "Inr PassContext
        \<in> set (map (\<lambda>(k, v). decorator_for sc (signature_defaults ?vs) k v) anns)" by simp
    then obtain k v where "decorator_for sc (signature_defaults ?vs) k v = Inr PassContext"
      by auto
    then show False using decorator_for_visible by blast
  qed
  have marker: "(case ?vs of [] \<Rightarrow> [] | v # vs \<Rightarrow> if name v = ''ctx'' then [PassContext] else [])
      = (if map name (take 1 ?vs) = [''ctx''] then [PassContext] else [])"
    by (cases ?vs) auto
  from run visible ds marker show ?thesis by auto
qed

text \<open>
  Claim C4, as stated, fails: the presence of \<open>ctx\<close> anywhere in the signature does
  not bring \<open>click.pass_context\<close>. For \<open>def g(a, ctx)\<close> the decorators are the
  argument \<open>a\<close> alone.
\<close>

theorem ctx_anywhere_counterexample:
  "''ctx'' \<in> set (map name (parameters example_late_ctx)) \<and>
   signature_to_decorators spinalcase_lower example_late_ctx [] =
     Inr [ClickArgument ''a'' (Some (PyType CEmpty)) None] \<and>
   PassContext \<notin> set [ClickArgument ''a'' (Some (PyType CEmpty)) None]"
  by (simp add: signature_to_decorators_def example_late_ctx_def signature_defaults_def
      decorator_for_def istype_def subclass_of_def spinalcase_lower_def)

text \<open>
  Claim C4, amended. Whenever \<open>signature_to_decorators\<close> returns, a parameter named
  \<open>ctx\<close> gives no option and no argument: the decorators are those of the signature
  without its parameters named \<open>ctx\<close>, none of which is \<open>click.pass_context\<close>,
  followed by \<open>click.pass_context\<close> exactly when the first parameter is named \<open>ctx\<close>.
  In that case \<open>click.pass_context\<close> is the last decorator, and the first that
  \<open>command_from_decorators\<close> applies to the function.
\<close>

theorem ctx_first_marker:
  "(signature_to_decorators spinalcase object earlier = Inr ds \<longrightarrow>
      (\<exists>bs. signature_to_decorators spinalcase
               (object\<lparr>parameters := filter (\<lambda>v. name v \<noteq> ''ctx'') (parameters object)\<rparr>) []
             = Inr bs \<and>
           PassContext \<notin> set bs \<and>
           ds = earlier @ bs @
             (if map name (take 1 (parameters object)) = [''ctx''] then [PassContext] else []))) \<and>
   (signature_to_decorators spinalcase object earlier = Inr ds \<and>
    map name (take 1 (parameters object)) = [''ctx''] \<and>
    command_from_decorators (Some (Function object)) ds settings = Inr cmd \<longrightarrow>
      last ds = PassContext \<and> hd (applied (callback cmd)) = PassContext)"
proof (intro conjI impI)
  assume "signature_to_decorators spinalcase object earlier = Inr ds"
  then show "\<exists>bs. signature_to_decorators spinalcase
               (object\<lparr>parameters := filter (\<lambda>v. name v \<noteq> ''ctx'') (parameters object)\<rparr>) []
             = Inr bs \<and>
           PassContext \<notin> set bs \<and>
           ds = earlier @ bs @
             (if map name (take 1 (parameters object)) = [''ctx''] then [PassContext] else [])"
    by (rule ctx_marker_shape)
next
  assume all: "signature_to_decorators spinalcase object earlier = Inr ds \<and>
    map name (take 1 (parameters object)) = [''ctx''] \<and>
    command_from_decorators (Some (Function object)) ds settings = Inr cmd"
  then have run: "signature_to_decorators spinalcase object earlier = Inr ds"
    and first: "map name (take 1 (parameters object)) = [''ctx'']"
    and cmd: "command_from_decorators (Some (Function object)) ds settings = Inr cmd"
    by simp_all
  from ctx_marker_shape [OF run] first obtain bs where ds: "ds = earlier @ bs @ [PassContext]"
    by auto
  from command_callback [OF cmd] have "applied (callback cmd) = rev ds"
    by (simp add: applied_foldr)
  with ds show "last ds = PassContext" and "hd (applied (callback cmd)) = PassContext"
    by simp_all
qed

lemma example_first_ctx_decorators:
  "signature_to_decorators spinalcase_lower example_first_ctx [] =
     Inr [ClickArgument ''name'' (Some (PyType CStr)) None, PassContext]"
  by (simp add: signature_to_decorators_def example_first_ctx_def signature_defaults_def
      decorator_for_def istype_def subclass_of_def spinalcase_lower_def)

theorem ctx_first_marker_witness:
  "signature_to_decorators spinalcase_lower example_first_ctx [] =
     Inr [ClickArgument ''name'' (Some (PyType CStr)) None, PassContext] \<and>
   map name (take 1 (parameters example_first_ctx)) = [''ctx''] \<and>
   signature_to_decorators spinalcase_lower
     (example_first_ctx\<lparr>parameters :=
        filter (\<lambda>v. name v \<noteq> ''ctx'') (parameters example_first_ctx)\<rparr>) [] =
     Inr [ClickArgument ''name'' (Some (PyType CStr)) None] \<and>
   (\<exists>cmd. command_from_decorators (Some (Function example_first_ctx))
            [ClickArgument ''name'' (Some (PyType CStr)) None, PassContext] [] = Inr cmd \<and>
          hd (applied (callback cmd)) = PassContext)"
proof -
  let ?ds = "[ClickArgument ''name'' (Some (PyType CStr)) None, PassContext]"
  have first: "map name (take 1 (parameters example_first_ctx)) = [''ctx'']"
    by (simp add: example_first_ctx_def)
  obtain cmd where
    cmd: "command_from_decorators (Some (Function example_first_ctx)) ?ds [] = Inr cmd"
    by (simp add: command_from_decorators_def)
  note inst = ctx_first_marker [where spinalcase = spinalcase_lower
      and object = example_first_ctx and earlier = "[]" and ds = ?ds and settings = "[]"
      and cmd = cmd]
  from inst example_first_ctx_decorators first cmd
  have "hd (applied (callback cmd)) = PassContext" by blast
  moreover from inst example_first_ctx_decorators first
  obtain bs where "signature_to_decorators spinalcase_lower
       (example_first_ctx\<lparr>parameters :=
          filter (\<lambda>v. name v \<noteq> ''ctx'') (parameters example_first_ctx)\<rparr>) [] = Inr bs"
    and "?ds = [] @ bs @ [PassContext]"
    by auto
  ultimately show ?thesis using example_first_ctx_decorators first cmd by auto
qed

section \<open>The assembled command\<close>

text \<open>
  Claim C5. The command \<open>command_from_decorators\<close> returns has \<open>no_args_is_help\<close> set
  if and only if at least one decorator was applied to the callable: for a callable
  given as \<open>command\<close>, if and only if the decorators are not empty; when \<open>command\<close> is
  \<open>None\<close> the last positional argument is the callable, and the decorators are the
  ones before it.
\<close>

theorem help_iff_decorated:
  "(command_from_decorators (Some c) decorators settings = Inr cmd \<longrightarrow>
      no_args_is_help cmd = (decorators \<noteq> []) \<and>
      callback cmd = foldr Applied decorators c) \<and>
   (command_from_decorators None decorators settings = Inr cmd \<longrightarrow>
      no_args_is_help cmd = (butlast decorators \<noteq> []) \<and>
      callback cmd = foldr Applied (butlast decorators) (Decorator (last decorators)))"
  using command_callback [of c decorators settings cmd]
    command_callback_None [of decorators settings cmd]
  by blast

theorem help_iff_decorated_witness:
  "(\<exists>cmd. command_from_decorators (Some (Function example_abc)) [] [] = Inr cmd \<and>
          \<not> no_args_is_help cmd) \<and>
   (\<exists>cmd. command_from_decorators (Some (Function example_abc)) [PassContext] [] = Inr cmd \<and>
          no_args_is_help cmd) \<and>
   (\<exists>cmd. command_from_decorators None [PassContext, ClickArgument ''a'' None None] [] = Inr cmd \<and>
          no_args_is_help cmd \<and>
          callback cmd = Applied PassContext (Decorator (ClickArgument ''a'' None None)))"
proof -
  obtain c0 where c0: "command_from_decorators (Some (Function example_abc)) [] [] = Inr c0"
    by (simp add: command_from_decorators_def)
  obtain c1 where
    c1: "command_from_decorators (Some (Function example_abc)) [PassContext] [] = Inr c1"
    by (simp add: command_from_decorators_def)
  obtain c2 where
    c2: "command_from_decorators None [PassContext, ClickArgument ''a'' None None] [] = Inr c2"
    by (simp add: command_from_decorators_def)
  from help_iff_decorated [where c = "Function example_abc" and decorators = "[]"
      and settings = "[]" and cmd = c0] c0
  have "\<not> no_args_is_help c0" by simp
  moreover from help_iff_decorated [where c = "Function example_abc"
      and decorators = "[PassContext]" and settings = "[]" and cmd = c1] c1
  have "no_args_is_help c1" by simp
  moreover from help_iff_decorated [where
      decorators = "[PassContext, ClickArgument ''a'' None None]" and settings = "[]"
      and cmd = c2] c2
  have "no_args_is_help c2 \<and>
      callback c2 = Applied PassContext (Decorator (ClickArgument ''a'' None None))" by simp
  ultimately show ?thesis using c0 c1 c2 by blast
qed

section \<open>The entry point\<close>

text \<open>
  Claim C6 says that for zero or several items \<open>autoclick\<close> returns the group with
  each command added to it. The branch of dictionaries builds a command and never
  calls \<open>add_command\<close>, as the two other branches do: for the function \<open>h\<close> and the
  dictionary \<open>{"__annotations__": {"a": int}}\<close> the group returned holds the command
  of \<open>h\<close> alone, although a command is built for the dictionary (the one returned when
  the dictionary is the only item).
\<close>

theorem mapping_command_not_added:
  "autoclick spinalcase_lower
     [ItemFunction example_first_ctx, ItemObject (PyDict example_mapping)] None [] =
     Inr (ReturnGroup
       [\<lparr>callback =
           Applied (ClickArgument ''name'' (Some (PyType CStr)) None)
             (Applied PassContext (Function example_first_ctx)),
         no_args_is_help = True,
         attrs = [(''help'', PyStr ''Say hello.'')]\<rparr>]) \<and>
   autoclick spinalcase_lower [ItemObject (PyDict example_mapping)] None [] =
     Inr (ReturnItem (ItemCommand
       \<lparr>callback = Decorator (ClickArgument ''a'' (Some (PyType CInt)) None),
        no_args_is_help = False, attrs = []\<rparr>))"
proof -
  have m: "decorators_from_dict spinalcase_lower example_mapping =
      Inr [ClickArgument ''a'' (Some (PyType CInt)) None]"
    by (simp add: decorators_from_dict_def example_mapping_def decorator_for_def istype_def
        subclass_of_def spinalcase_lower_def)
  have g: "getdoc example_first_ctx = PyStr ''Say hello.''"
    by (simp add: example_first_ctx_def)
  show ?thesis
    by (simp add: autoclick_def example_first_ctx_decorators m g command_from_decorators_def)
qed

end
